theory Spec2Isabelle
  imports Main "HOL-Library.Char_ord" "HOL-Library.List_Lexorder"
begin

section \<open>Bytes, text and sockets\<close>

text \<open>
  A Python \<open>bytes\<close> value is a list of 8-bit characters; a Python \<open>str\<close> is a list of
  Unicode code points.  File names and paths are kept as UTF-8 byte strings: bytewise
  lexicographic order on UTF-8 equals code point order on the decoded text, which is the
  order Python's \<open>sorted\<close> uses on \<open>str\<close>.
\<close>

type_synonym bytes = string

type_synonym str = "nat list"

definition newline :: char where
  "newline = CHR 0x0A"

definition literal :: "string \<Rightarrow> str" where
  \<comment> \<open>an ASCII literal as a Python \<open>str\<close>\<close>
  "literal s = map of_char s"

definition startswith :: "'a list \<Rightarrow> 'a list \<Rightarrow> bool" where
  \<comment> \<open>\<open>s.startswith(p)\<close>, for \<open>str\<close> and \<open>bytes\<close> alike\<close>
  "startswith s p = (take (length p) s = p)"

definition endswith :: "'a list \<Rightarrow> 'a list \<Rightarrow> bool" where
  \<comment> \<open>\<open>s.endswith(p)\<close>\<close>
  "endswith s p = (length p \<le> length s \<and> drop (length s - length p) s = p)"

datatype exn =
    Exception string  \<comment> \<open>\<open>raise Exception(msg)\<close> of the source\<close>
  | ValueError
  | UnicodeDecodeError
  | KeyError
  | TypeError
  | AttributeError
  | JSONDecodeError
  | PermissionError
  | OSError           \<comment> \<open>any other \<open>OSError\<close>\<close>

datatype 'a io =
    Done 'a       \<comment> \<open>the call returns\<close>
  | Raises exn    \<comment> \<open>the call raises\<close>
  | Blocks        \<comment> \<open>the call never returns (a blocking receive on a silent peer)\<close>

text \<open>
  The peer's side of a TCP connection, as the receiver meets it: the segments still to
  arrive, in order.  \<open>Fin\<close>: the peer has closed, every later \<open>recv\<close> returns \<open>b''\<close>.
  \<open>Rst\<close>: the connection breaks, \<open>recv\<close> raises.  When nothing is left and the peer has
  not closed, \<open>recv\<close> blocks for ever (the source sets no timeout on these sockets).
\<close>

datatype event = Segment bytes | Fin | Rst

type_synonym socket = "event list"

fun recv :: "nat \<Rightarrow> socket \<Rightarrow> bytes io \<times> socket" where
  "recv n [] = (Blocks, [])"
| "recv n (Fin # es) = (Done [], Fin # es)"
| "recv n (Rst # es) = (Raises OSError, es)"
| "recv n (Segment c # es) =
     (if c = [] then recv n es
      else if length c \<le> n then (Done c, es)
      else (Done (take n c), Segment (drop n c) # es))"

fun pending :: "socket \<Rightarrow> nat" where
  "pending [] = 0"
| "pending (Segment c # es) = Suc (length c) + pending es"
| "pending (e # es) = Suc (pending es)"

lemma recv_pending:
  "recv n s = (Done c, s') \<Longrightarrow> c \<noteq> [] \<Longrightarrow> pending s' < pending s"
  by (induction n s rule: recv.induct) (auto split: if_splits)

section \<open>Client: \<open>Downloader\<close>\<close>

subsection \<open>Receiving and reading the header line\<close>

text \<open>
  \<^verbatim>\<open>header = b''
while b'\n' not in header:
    chunk = s.recv(1024)
    if not chunk: raise Exception("Connection lost")
    header += chunk\<close>
\<close>

function recv_header :: "bytes \<Rightarrow> socket \<Rightarrow> bytes io \<times> socket" where
  "recv_header header s =
     (if newline \<in> set header then (Done header, s)
      else (case recv 1024 s of
              (Done chunk, s') \<Rightarrow>
                if chunk = [] then (Raises (Exception ''Connection lost''), s')
                else recv_header (header @ chunk) s'
            | (Raises e, s') \<Rightarrow> (Raises e, s')
            | (Blocks, s') \<Rightarrow> (Blocks, s')))"
  by pat_completeness auto
termination
  by (relation "measure (\<lambda>(header, s). pending s)") (auto dest: recv_pending [OF sym])

declare recv_header.simps [simp del]

text \<open>
  \<open>bytes.decode('utf-8')\<close> (strict): the code points of a well-formed UTF-8 sequence, or
  \<open>UnicodeDecodeError\<close> (\<open>None\<close>) on an overlong form, a surrogate, a stray or missing
  continuation byte or a value above U+10FFFF.
\<close>

definition cont :: "nat \<Rightarrow> bool" where
  "cont b = (128 \<le> b \<and> b \<le> 191)"

fun utf8 :: "nat list \<Rightarrow> str option" where
  "utf8 [] = Some []"
| "utf8 (b # bs) =
     (if b < 128 then map_option ((#) b) (utf8 bs)
      else if 194 \<le> b \<and> b < 224 then
        (case bs of
           b1 # r \<Rightarrow>
             if cont b1 then map_option ((#) ((b - 192) * 64 + (b1 - 128))) (utf8 r) else None
         | _ \<Rightarrow> None)
      else if 224 \<le> b \<and> b < 240 then
        (case bs of
           b1 # b2 # r \<Rightarrow>
             if (if b = 224 then 160 else 128) \<le> b1 \<and> b1 \<le> (if b = 237 then 159 else 191) \<and> cont b2
             then map_option ((#) ((b - 224) * 4096 + (b1 - 128) * 64 + (b2 - 128))) (utf8 r)
             else None
         | _ \<Rightarrow> None)
      else if 240 \<le> b \<and> b < 245 then
        (case bs of
           b1 # b2 # b3 # r \<Rightarrow>
             if (if b = 240 then 144 else 128) \<le> b1 \<and> b1 \<le> (if b = 244 then 143 else 191)
                \<and> cont b2 \<and> cont b3
             then map_option
                    ((#) ((b - 240) * 262144 + (b1 - 128) * 4096 + (b2 - 128) * 64 + (b3 - 128)))
                    (utf8 r)
             else None
         | _ \<Rightarrow> None)
      else None)"

definition decode :: "bytes \<Rightarrow> str option" where
  "decode bs = utf8 (map of_char bs)"

text \<open>
  \<open>int(s)\<close> in base 10 on the ASCII grammar: surrounding white space, one optional sign,
  decimal digits with single underscores between them; \<open>None\<close> is \<open>ValueError\<close>.  Python
  also accepts decimal digits and spaces outside ASCII; the header a server of this
  repository sends (\<open>f'SIZE:{file_size}\n'\<close>) has none, and here they count as invalid.
\<close>

definition is_space :: "nat \<Rightarrow> bool" where
  "is_space c = (c = 32 \<or> (9 \<le> c \<and> c \<le> 13))"

definition is_digit :: "nat \<Rightarrow> bool" where
  "is_digit c = (48 \<le> c \<and> c \<le> 57)"

definition strip :: "str \<Rightarrow> str" where
  "strip s = rev (dropWhile is_space (rev (dropWhile is_space s)))"

fun py_digits :: "nat \<Rightarrow> str \<Rightarrow> nat option" where
  "py_digits acc [] = Some acc"
| "py_digits acc [c] = (if is_digit c then Some (10 * acc + (c - 48)) else None)"
| "py_digits acc (c # d # ds) =
     (if is_digit c then py_digits (10 * acc + (c - 48)) (d # ds)
      else if c = 95 \<and> is_digit d then py_digits (10 * acc + (d - 48)) ds
      else None)"

definition py_int :: "str \<Rightarrow> int option" where
  "py_int s =
     (let t = strip s;
          negative = startswith t [45];
          u = (if startswith t [43] \<or> negative then tl t else t)
      in case u of
           [] \<Rightarrow> None
         | d # ds \<Rightarrow>
             if is_digit d
             then map_option (\<lambda>n. if negative then - int n else int n) (py_digits (d - 48) ds)
             else None)"

subsection \<open>The receive loop of \<open>Downloader._download\<close>\<close>

definition CHUNK_SIZE :: nat where
  "CHUNK_SIZE = 65536"

text \<open>
  The fields of a \<open>Downloader\<close> that the receive loop reads and writes, with the bytes
  written to the open destination file and the calls of \<open>gui.update_progress\<close>, each as
  its arguments \<open>(downloaded, total)\<close>.

  \<open>self.cancelled\<close> is set by another thread (\<open>Downloader.cancel\<close>, from the GUI) and
  never reset.  The thread running \<open>_download\<close> only reads it: \<open>polls\<close> counts its
  reads, and a schedule \<open>Some k\<close> says that the first \<open>k\<close> reads see \<open>False\<close> and every
  later one \<open>True\<close>; \<open>None\<close> says that nobody cancels.
\<close>

record downloader =
  total_size :: int
  downloaded :: int
  polls :: nat
  written :: bytes
  progress :: "(int \<times> int) list"

definition is_cancelled :: "nat option \<Rightarrow> downloader \<Rightarrow> bool" where
  "is_cancelled schedule d = (case schedule of None \<Rightarrow> False | Some k \<Rightarrow> k \<le> polls d)"

definition poll :: "downloader \<Rightarrow> downloader" where
  "poll d = d\<lparr>polls := Suc (polls d)\<rparr>"

definition marker :: bytes where
  "marker = ''END'' @ [newline]"

definition write_chunk :: "bytes \<Rightarrow> downloader \<Rightarrow> downloader" where
  \<comment> \<open>the loop body after the receive: strip, write, count, report\<close>
  "write_chunk chunk d =
     (let chunk = (if endswith chunk marker then take (length chunk - 4) chunk else chunk);
          n = downloaded d + int (length chunk)
      in d\<lparr>written := written d @ chunk, downloaded := n,
            progress := progress d @ [(n, total_size d)]\<rparr>)"

datatype loop_exit =
    Condition_false  \<comment> \<open>the \<open>while\<close> condition fails\<close>
  | Break            \<comment> \<open>\<open>if not chunk: break\<close>\<close>

text \<open>
  \<^verbatim>\<open>while not self.cancelled and self.downloaded < self.total_size:
    chunk = s.recv(CHUNK_SIZE)
    if not chunk: break
    if chunk.endswith(b'END\n'): chunk = chunk[:-4]
    f.write(chunk)
    self.downloaded += len(chunk)
    self.gui.update_progress(self.file_path, self.downloaded, self.total_size, self.start_time)\<close>
\<close>

function transfer :: "nat option \<Rightarrow> downloader \<Rightarrow> socket \<Rightarrow> loop_exit io \<times> downloader \<times> socket" where
  "transfer schedule d s =
     (if is_cancelled schedule d \<or> total_size d \<le> downloaded d
      then (Done Condition_false, poll d, s)
      else (case recv CHUNK_SIZE s of
              (Done chunk, s') \<Rightarrow>
                if chunk = [] then (Done Break, poll d, s')
                else transfer schedule (write_chunk chunk (poll d)) s'
            | (Raises e, s') \<Rightarrow> (Raises e, poll d, s')
            | (Blocks, s') \<Rightarrow> (Blocks, poll d, s')))"
  by pat_completeness auto
termination
  by (relation "measure (\<lambda>(schedule, d, s). pending s)") (auto dest: recv_pending [OF sym])

declare transfer.simps [simp del]

subsection \<open>\<open>Downloader._download\<close>\<close>

text \<open>
  What the user is shown when \<open>_download\<close> ends, and the destination file
  (\<open>self.save_path\<close>) as it is on disk then: \<open>None\<close> when no such file exists.
\<close>

datatype shown =
    Complete             \<comment> \<open>\<open>messagebox.showinfo("Complete", ...)\<close>\<close>
  | Removed              \<comment> \<open>cancelled: \<open>os.remove(self.save_path)\<close>, no message\<close>
  | Server_error str     \<comment> \<open>\<open>messagebox.showerror("Error", line[6:])\<close>\<close>
  | Download_failed exn  \<comment> \<open>\<open>messagebox.showerror("Download Failed", str(e))\<close>\<close>
  | Never                \<comment> \<open>a receive blocks for ever\<close>

record run =
  shown :: shown
  dest :: "bytes option"
  final :: downloader

definition init :: downloader where
  \<comment> \<open>\<open>Downloader.__init__\<close>\<close>
  "init = \<lparr>total_size = 0, downloaded = 0, polls = 0, written = [], progress = []\<rparr>"

definition finish :: "nat option \<Rightarrow> downloader \<Rightarrow> run" where
  \<comment> \<open>after \<open>s.close()\<close>: the file exists, \<open>open(save_path, 'wb')\<close> has just created it\<close>
  "finish schedule d =
     (if is_cancelled schedule d
      then \<lparr>shown = Removed, dest = None, final = poll d\<rparr>
      else \<lparr>shown = Complete, dest = Some (written d),
             final = (poll d)\<lparr>progress := progress d @ [(total_size d, total_size d)]\<rparr>\<rparr>)"

definition download :: "nat option \<Rightarrow> bytes option \<Rightarrow> socket \<Rightarrow> run" where
  \<comment> \<open>\<open>Downloader._download\<close>, from the first receive on; \<open>existing\<close> is the destination
      file as it is when the download starts\<close>
  "download schedule existing s =
     (case recv_header [] s of
        (Blocks, _) \<Rightarrow> \<lparr>shown = Never, dest = existing, final = init\<rparr>
      | (Raises e, _) \<Rightarrow> \<lparr>shown = Download_failed e, dest = existing, final = init\<rparr>
      | (Done header, s') \<Rightarrow>
          (case decode (takeWhile (\<lambda>b. b \<noteq> newline) header) of
             None \<Rightarrow> \<lparr>shown = Download_failed UnicodeDecodeError, dest = existing, final = init\<rparr>
           | Some line \<Rightarrow>
               if startswith line (literal ''ERROR'')
               then \<lparr>shown = Server_error (drop 6 line), dest = existing, final = init\<rparr>
               else if startswith line (literal ''SIZE:'') then
                 (case py_int (drop 5 line) of
                    None \<Rightarrow> \<lparr>shown = Download_failed ValueError, dest = existing, final = init\<rparr>
                  | Some n \<Rightarrow>
                      (case transfer schedule (init\<lparr>total_size := n\<rparr>) s' of
                         (Done _, d, _) \<Rightarrow> finish schedule d
                       | (Raises e, d, _) \<Rightarrow>
                           \<lparr>shown = Download_failed e, dest = Some (written d), final = d\<rparr>
                       | (Blocks, d, _) \<Rightarrow>
                           \<lparr>shown = Never, dest = Some (written d), final = d\<rparr>))
               else \<lparr>shown = Download_failed (Exception ''Invalid response''),
                      dest = existing, final = init\<rparr>))"

section \<open>Server: paths\<close>

text \<open>
  \<open>os.path\<close> is \<open>posixpath\<close> here: \<open>os.sep\<close> is \<open>/\<close>, and \<open>join\<close>, \<open>normpath\<close> and
  \<open>abspath\<close> are the functions of that module (\<open>join\<close> with the two arguments the source
  always gives it).  \<open>os.getcwd()\<close>, which \<open>abspath\<close> reads for a relative path, is the
  parameter \<open>cwd\<close>.
\<close>

definition os_sep :: char where
  "os_sep = CHR ''/''"

fun split_from :: "'a \<Rightarrow> 'a list \<Rightarrow> 'a list \<Rightarrow> 'a list list" where
  \<comment> \<open>the pieces of a text of which \<open>piece\<close> has been read\<close>
  "split_from sep piece [] = [piece]"
| "split_from sep piece (c # cs) =
     (if c = sep then piece # split_from sep [] cs else split_from sep (piece @ [c]) cs)"

definition split_on :: "'a \<Rightarrow> 'a list \<Rightarrow> 'a list list" where
  \<comment> \<open>\<open>s.split(sep)\<close> for a separator of length one: never an empty list\<close>
  "split_on sep s = split_from sep [] s"

fun join_with :: "'a \<Rightarrow> 'a list list \<Rightarrow> 'a list" where
  \<comment> \<open>\<open>sep.join(comps)\<close>\<close>
  "join_with sep [] = []"
| "join_with sep [c] = c"
| "join_with sep (c # d # ds) = c @ sep # join_with sep (d # ds)"

definition join :: "string \<Rightarrow> string \<Rightarrow> string" where
  \<comment> \<open>\<open>os.path.join(a, b)\<close>\<close>
  "join a b =
     (if startswith b [os_sep] then b
      else if a = [] \<or> endswith a [os_sep] then a @ b
      else a @ os_sep # b)"

definition norm_step :: "nat \<Rightarrow> string list \<Rightarrow> string \<Rightarrow> string list" where
  \<comment> \<open>one round of the loop of \<open>normpath\<close> over the components\<close>
  "norm_step initial_slashes new_comps part =
     (if part = [] \<or> part = ''.'' then new_comps
      else if part \<noteq> ''..'' \<or> (initial_slashes = 0 \<and> new_comps = [])
              \<or> (new_comps \<noteq> [] \<and> last new_comps = ''..'')
      then new_comps @ [part]
      else butlast new_comps)"

definition normpath :: "string \<Rightarrow> string" where
  "normpath path =
     (if path = [] then ''.''
      else
        let initial_slashes =
              (if startswith path ''//'' \<and> \<not> startswith path ''///'' then 2
               else if startswith path ''/'' then 1 else 0 :: nat);
            comps = foldl (norm_step initial_slashes) [] (split_on os_sep path);
            path = replicate initial_slashes os_sep @ join_with os_sep comps
        in if path = [] then ''.'' else path)"

definition isabs :: "string \<Rightarrow> bool" where
  "isabs path = startswith path [os_sep]"

definition abspath :: "string \<Rightarrow> string \<Rightarrow> string" where
  "abspath cwd path = normpath (if isabs path then path else join cwd path)"

definition replace_sep :: "string \<Rightarrow> string" where
  \<comment> \<open>\<open>path.replace('/', os.sep)\<close>\<close>
  "replace_sep path = map (\<lambda>c. if c = CHR ''/'' then os_sep else c) path"

text \<open>
  \<^verbatim>\<open>def safe_join(base, path):
    """Join and normalize paths, prevent directory traversal."""
    full_path = os.path.normpath(os.path.join(base, path.replace('/', os.sep)))
    if not os.path.abspath(full_path).startswith(os.path.abspath(base)):
        return None
    return full_path\<close>
\<close>

definition safe_join :: "string \<Rightarrow> string \<Rightarrow> string \<Rightarrow> string option" where
  "safe_join cwd base path =
     (let full_path = normpath (join base (replace_sep path))
      in if startswith (abspath cwd full_path) (abspath cwd base) then Some full_path else None)"

section \<open>Server: the file system and listings\<close>

text \<open>
  The file system as the server's \<open>os\<close> calls see it, by path: a regular file with its
  content and whether \<open>open(path, 'rb')\<close> is permitted; a directory with the names
  \<open>os.listdir\<close> returns (in the order it returns them), whether listing is permitted,
  and its \<open>st_size\<close>.  \<open>None\<close>: nothing is there (a missing file; a dangling link also
  looks so to \<open>isdir\<close>, \<open>isfile\<close> and \<open>getsize\<close>).  The file system does not change
  while a request is served.
\<close>

datatype node = File bytes bool | Dir "string list" bool nat

type_synonym filesystem = "string \<Rightarrow> node option"

definition isdir :: "filesystem \<Rightarrow> string \<Rightarrow> bool" where
  "isdir fs path = (case fs path of Some (Dir names ok n) \<Rightarrow> True | _ \<Rightarrow> False)"

definition isfile :: "filesystem \<Rightarrow> string \<Rightarrow> bool" where
  "isfile fs path = (case fs path of Some (File content ok) \<Rightarrow> True | _ \<Rightarrow> False)"

definition listdir :: "filesystem \<Rightarrow> string \<Rightarrow> exn + string list" where
  "listdir fs path =
     (case fs path of
        Some (Dir names ok n) \<Rightarrow> if ok then Inr names else Inl PermissionError
      | _ \<Rightarrow> Inl OSError)"

definition getsize :: "filesystem \<Rightarrow> string \<Rightarrow> exn + nat" where
  "getsize fs path =
     (case fs path of
        Some (File content ok) \<Rightarrow> Inr (length content)
      | Some (Dir names ok n) \<Rightarrow> Inr n
      | None \<Rightarrow> Inl OSError)"

definition open_rb :: "filesystem \<Rightarrow> string \<Rightarrow> exn + bytes" where
  \<comment> \<open>\<open>open(path, 'rb')\<close>: the bytes the reads will return\<close>
  "open_rb fs path =
     (case fs path of
        Some (File content ok) \<Rightarrow> if ok then Inr content else Inl PermissionError
      | _ \<Rightarrow> Inl OSError)"

subsection \<open>\<open>human_readable_size\<close>\<close>

text \<open>
  \<^verbatim>\<open>def human_readable_size(size):
    for unit in ['', 'Ki', 'Mi', 'Gi', 'Ti']:
        if size < 1024:
            return f"{size:.1f} {unit}B"
        size /= 1024
    return f"{size:.1f} PiB"\<close>

  \<open>size\<close> is an \<open>int\<close> on entry and a \<open>float\<close> after the first division.  The float is
  kept exactly, as a fraction \<open>m / d\<close> with \<open>d\<close> a power of 1024: the division of an
  \<open>int\<close> by 1024 rounds it to 53 significant bits (\<open>round53\<close>, to nearest, ties to even),
  and the later divisions by 1024 are exact.  Format \<open>.1f\<close> rounds the exact value to
  one decimal, ties to even.  A file size is an \<open>off_t\<close>, far below the range where the
  conversion to \<open>float\<close> overflows.
\<close>

fun bitlen :: "nat \<Rightarrow> nat" where
  "bitlen n = (if n = 0 then 0 else Suc (bitlen (n div 2)))"

declare bitlen.simps [simp del]

definition round_even :: "nat \<Rightarrow> nat \<Rightarrow> nat" where
  \<comment> \<open>\<open>m / d\<close> rounded to the nearest integer, ties to even\<close>
  "round_even m d =
     (let q = m div d; r = m mod d
      in if d < 2 * r \<or> (2 * r = d \<and> odd q) then q + 1 else q)"

definition round53 :: "nat \<Rightarrow> nat" where
  "round53 n =
     (if n < 2 ^ 53 then n
      else let e = bitlen n - 53 in round_even n (2 ^ e) * 2 ^ e)"

definition digits :: string where
  "digits = ''0123456789''"

fun decimal :: "nat \<Rightarrow> string" where
  \<comment> \<open>an \<open>int\<close> that is not negative, as \<open>str\<close> and \<open>format\<close> print it\<close>
  "decimal n =
     (if n < 10 then [digits ! n]
      else decimal (n div 10) @ [digits ! (n mod 10)])"

declare decimal.simps [simp del]

definition format_1f :: "nat \<Rightarrow> nat \<Rightarrow> string" where
  \<comment> \<open>\<open>f"{x:.1f}"\<close> for \<open>x = m / d\<close>\<close>
  "format_1f m d =
     (let tenths = round_even (10 * m) d
      in decimal (tenths div 10) @ ''.'' @ decimal (tenths mod 10))"

fun units_loop :: "nat \<Rightarrow> nat \<Rightarrow> string list \<Rightarrow> string" where
  "units_loop m d [] = format_1f m d @ '' PiB''"
| "units_loop m d (unit # units) =
     (if m < 1024 * d then format_1f m d @ '' '' @ unit @ ''B''
      else units_loop (round53 m) (d * 1024) units)"

definition human_readable_size :: "nat \<Rightarrow> string" where
  "human_readable_size sz = units_loop sz 1 [[], ''Ki'', ''Mi'', ''Gi'', ''Ti'']"

subsection \<open>\<open>get_listing\<close>\<close>

record item =
  name :: string
  size_str :: string  \<comment> \<open>the key \<open>"size"\<close>\<close>
  is_dir :: bool

datatype response =
    Error string         \<comment> \<open>\<open>{"error": message}\<close>\<close>
  | Listing "item list"  \<comment> \<open>\<open>{"listing": items}\<close>\<close>

text \<open>
  \<^verbatim>\<open>for name in sorted(os.listdir(full_path)):
    item_path = os.path.join(full_path, name)
    if os.path.isdir(item_path):
        items.append({"name": name + "/", "size": "", "is_dir": True})
    else:
        items.append({"name": name,
                      "size": human_readable_size(os.path.getsize(item_path)),
                      "is_dir": False})\<close>
\<close>

fun entries :: "filesystem \<Rightarrow> string \<Rightarrow> string list \<Rightarrow> exn + item list" where
  "entries fs full_path [] = Inr []"
| "entries fs full_path (n # names) =
     (if isdir fs (join full_path n)
      then (case entries fs full_path names of
              Inl e \<Rightarrow> Inl e
            | Inr items \<Rightarrow> Inr (\<lparr>name = n @ ''/'', size_str = [], is_dir = True\<rparr> # items))
      else (case getsize fs (join full_path n) of
              Inl e \<Rightarrow> Inl e
            | Inr bytes \<Rightarrow>
                (case entries fs full_path names of
                   Inl e \<Rightarrow> Inl e
                 | Inr items \<Rightarrow>
                     Inr (\<lparr>name = n, size_str = human_readable_size bytes, is_dir = False\<rparr>
                          # items))))"

definition permission_denied :: "exn + item list \<Rightarrow> exn + response" where
  \<comment> \<open>\<open>except PermissionError: return {"error": "Permission denied"}\<close>; any other
      exception leaves \<open>get_listing\<close>\<close>
  "permission_denied r =
     (case r of
        Inl e \<Rightarrow> if e = PermissionError then Inr (Error ''Permission denied'') else Inl e
      | Inr items \<Rightarrow> Inr (Listing items))"

definition get_listing :: "string \<Rightarrow> string \<Rightarrow> filesystem \<Rightarrow> string \<Rightarrow> exn + response" where
  \<comment> \<open>\<open>ROOT_DIR\<close>, the constant the deployer sets, is the parameter \<open>root_dir\<close>\<close>
  "get_listing cwd root_dir fs path =
     (case safe_join cwd root_dir path of
        None \<Rightarrow> Inr (Error ''Access denied'')
      | Some full_path \<Rightarrow>
          if isdir fs full_path
          then permission_denied
                 (case listdir fs full_path of
                    Inl e \<Rightarrow> Inl e
                  | Inr names \<Rightarrow> entries fs full_path (sort names))
          else Inr (Error ''Path not found''))"

text \<open>
  The name under which an entry of a listing is stored in its directory: the name
  returned, without the \<open>/\<close> that \<open>get_listing\<close> appends to the name of a directory.
\<close>

definition on_disk :: "item \<Rightarrow> string" where
  "on_disk i = (if is_dir i then butlast (name i) else name i)"

section \<open>Server: \<open>handle_client\<close>\<close>

text \<open>
  A decoded command.  \<open>json.loads\<close> is the library's: the handler takes
  \<open>json.loads(data.decode('utf-8').strip())\<close> as a parameter \<open>loads\<close>, which returns the
  decoded value or raises (\<open>JSONDecodeError\<close>, or \<open>UnicodeDecodeError\<close> from the
  decoding of the bytes).  An object is the list of its members.
\<close>

datatype json =
    JNull
  | JBool bool
  | JNumber int
  | JString string
  | JArray "json list"
  | JObject "(string \<times> json) list"

definition subscript :: "json \<Rightarrow> string \<Rightarrow> exn + json" where
  \<comment> \<open>\<open>cmd[key]\<close> for a string key\<close>
  "subscript cmd key =
     (case cmd of
        JObject members \<Rightarrow>
          (case map_of members key of None \<Rightarrow> Inl KeyError | Some v \<Rightarrow> Inr v)
      | _ \<Rightarrow> Inl TypeError)"

definition get :: "json \<Rightarrow> string \<Rightarrow> json \<Rightarrow> json" where
  \<comment> \<open>\<open>cmd.get(key, default)\<close>, called only after \<open>cmd['type']\<close> has returned, so on an
      object\<close>
  "get cmd key dflt =
     (case cmd of
        JObject members \<Rightarrow> (case map_of members key of None \<Rightarrow> dflt | Some v \<Rightarrow> v)
      | _ \<Rightarrow> dflt)"

definition as_path :: "json \<Rightarrow> exn + string" where
  \<comment> \<open>\<open>path.replace(...)\<close> in \<open>safe_join\<close>: only a \<open>str\<close> has the method\<close>
  "as_path v = (case v of JString s \<Rightarrow> Inr s | _ \<Rightarrow> Inl AttributeError)"

text \<open>
  The frame the client sends for a command (\<open>client.py\<close>, lines 57 and 178):
  \<open>json.dumps({'type': kind, 'path': path}) + '\n'\<close>, for a kind and a path of ASCII
  characters that JSON does not escape.  \<open>loads_of table\<close> is a decoder that is known on
  the frames of a table, and raises \<open>JSONDecodeError\<close> on every other frame.
\<close>

definition quoted :: "string \<Rightarrow> string" where
  "quoted s = CHR 0x22 # s @ [CHR 0x22]"

definition request :: "string \<Rightarrow> string \<Rightarrow> bytes" where
  "request kind path =
     ''{'' @ quoted ''type'' @ '': '' @ quoted kind @ '', '' @ quoted ''path'' @ '': ''
       @ quoted path @ ''}'' @ [newline]"

definition loads_of :: "(bytes \<times> (exn + json)) list \<Rightarrow> bytes \<Rightarrow> exn + json" where
  "loads_of table data = (case map_of table data of None \<Rightarrow> Inl JSONDecodeError | Some r \<Rightarrow> r)"

datatype sent =
    Sent bytes          \<comment> \<open>\<open>conn.sendall(data)\<close>\<close>
  | Sent_json response  \<comment> \<open>\<open>conn.sendall(json.dumps(response).encode('utf-8') + b'\n')\<close>\<close>

text \<open>
  \<^verbatim>\<open>with open(full_path, 'rb') as f:
    while True:
        chunk = f.read(65536)
        if not chunk: break
        conn.sendall(chunk)\<close>
\<close>

function file_chunks :: "bytes \<Rightarrow> bytes list" where
  "file_chunks content =
     (if content = [] then [] else take 65536 content # file_chunks (drop 65536 content))"
  by pat_completeness auto
termination
  by (relation "measure length") auto

declare file_chunks.simps [simp del]

definition download_file :: "string \<Rightarrow> string \<Rightarrow> filesystem \<Rightarrow> json \<Rightarrow> sent list \<times> exn option" where
  \<comment> \<open>the branch \<open>cmd['type'] == 'DOWNLOAD'\<close>: what is sent, and the exception that
      leaves the loop, if any\<close>
  "download_file cwd root_dir fs cmd =
     (case as_path (get cmd ''path'' (JString [])) of
        Inl e \<Rightarrow> ([], Some e)
      | Inr file_path \<Rightarrow>
          (case safe_join cwd root_dir file_path of
             None \<Rightarrow> ([Sent (''ERROR: File not found or access denied'' @ [newline])], None)
           | Some full_path \<Rightarrow>
               if isfile fs full_path then
                 (case getsize fs full_path of
                    Inl e \<Rightarrow> ([], Some e)
                  | Inr file_size \<Rightarrow>
                      (case open_rb fs full_path of
                         Inl e \<Rightarrow> ([Sent (''SIZE:'' @ decimal file_size @ [newline])], Some e)
                       | Inr content \<Rightarrow>
                           (Sent (''SIZE:'' @ decimal file_size @ [newline])
                              # map Sent (file_chunks content) @ [Sent marker],
                            None)))
               else ([Sent (''ERROR: File not found or access denied'' @ [newline])], None)))"

definition list_directory :: "string \<Rightarrow> string \<Rightarrow> filesystem \<Rightarrow> json \<Rightarrow> sent list \<times> exn option" where
  \<comment> \<open>the branch \<open>cmd['type'] == 'LIST'\<close>\<close>
  "list_directory cwd root_dir fs cmd =
     (case as_path (get cmd ''path'' (JString ''/'')) of
        Inl e \<Rightarrow> ([], Some e)
      | Inr path \<Rightarrow>
          (case get_listing cwd root_dir fs path of
             Inl e \<Rightarrow> ([], Some e)
           | Inr response \<Rightarrow> ([Sent_json response], None)))"

definition command :: "(bytes \<Rightarrow> exn + json) \<Rightarrow> string \<Rightarrow> string \<Rightarrow> filesystem \<Rightarrow> bytes \<Rightarrow> sent list \<times> exn option" where
  \<comment> \<open>one round of the loop of \<open>handle_client\<close>, once the frame \<open>data\<close> is read\<close>
  "command loads cwd root_dir fs data =
     (case loads data of
        Inl e \<Rightarrow>
          if e = JSONDecodeError then ([Sent (''ERROR: Invalid JSON'' @ [newline])], None)
          else ([], Some e)
      | Inr cmd \<Rightarrow>
          (case subscript cmd ''type'' of
             Inl e \<Rightarrow> ([], Some e)
           | Inr kind \<Rightarrow>
               if kind = JString ''LIST'' then list_directory cwd root_dir fs cmd
               else if kind = JString ''DOWNLOAD'' then download_file cwd root_dir fs cmd
               else ([], None)))"

text \<open>
  \<^verbatim>\<open>data = b''
while not data.endswith(b'\n'):
    chunk = conn.recv(4096)
    if not chunk: return
    data += chunk\<close>

  \<open>Done None\<close> is the \<open>return\<close>.
\<close>

function read_frame :: "bytes \<Rightarrow> socket \<Rightarrow> bytes option io \<times> socket" where
  "read_frame data s =
     (if endswith data [newline] then (Done (Some data), s)
      else (case recv 4096 s of
              (Done chunk, s') \<Rightarrow>
                if chunk = [] then (Done None, s') else read_frame (data @ chunk) s'
            | (Raises e, s') \<Rightarrow> (Raises e, s')
            | (Blocks, s') \<Rightarrow> (Blocks, s')))"
  by pat_completeness auto
termination
  by (relation "measure (\<lambda>(data, s). pending s)") (auto dest: recv_pending [OF sym])

declare read_frame.simps [simp del]

lemma read_frame_pending:
  "read_frame data s = (Done (Some frame), s') \<Longrightarrow> pending s' \<le> pending s"
proof (induction data s rule: read_frame.induct)
  case (1 data s)
  show ?case
  proof (cases "endswith data [newline]")
    case True
    with "1.prems" show ?thesis by (simp add: read_frame.simps [of data s])
  next
    case False
    obtain r s1 where r: "recv 4096 s = (r, s1)" by (cases "recv 4096 s")
    with False "1.prems" obtain chunk where chunk: "r = Done chunk" "chunk \<noteq> []"
      and rest: "read_frame (data @ chunk) s1 = (Done (Some frame), s')"
      by (cases r) (auto simp: read_frame.simps [of data s] split: if_splits)
    from "1.IH" [OF False r [symmetric] chunk(1) chunk(2) rest]
    have "pending s' \<le> pending s1" .
    moreover from recv_pending r chunk have "pending s1 < pending s" by blast
    ultimately show ?thesis by simp
  qed
qed

lemma read_frame_consumes:
  "read_frame [] s = (Done (Some frame), s') \<Longrightarrow> pending s' < pending s"
proof -
  assume a: "read_frame [] s = (Done (Some frame), s')"
  obtain r s1 where r: "recv 4096 s = (r, s1)" by (cases "recv 4096 s")
  with a obtain chunk where chunk: "r = Done chunk" "chunk \<noteq> []"
    and rest: "read_frame chunk s1 = (Done (Some frame), s')"
    by (cases r) (auto simp: read_frame.simps [of "[]" s] endswith_def split: if_splits)
  from read_frame_pending [OF rest] recv_pending [OF r [unfolded chunk(1)] chunk(2)]
  show ?thesis by simp
qed

text \<open>
  How the handling of a connection ends: the peer closed and the handler returned; an
  exception reached \<open>except Exception\<close>; or the handler waits in \<open>recv\<close> for a command
  that never comes.  In the first two cases \<open>finally\<close> closes the connection.
\<close>

datatype ending = Returned | Failed exn | Waiting

function handle_client :: "(bytes \<Rightarrow> exn + json) \<Rightarrow> string \<Rightarrow> string \<Rightarrow> filesystem \<Rightarrow> socket \<Rightarrow> sent list \<times> ending" where
  "handle_client loads cwd root_dir fs s =
     (case read_frame [] s of
        (Blocks, s') \<Rightarrow> ([], Waiting)
      | (Raises e, s') \<Rightarrow> ([], Failed e)
      | (Done None, s') \<Rightarrow> ([], Returned)
      | (Done (Some data), s') \<Rightarrow>
          (case command loads cwd root_dir fs data of
             (out, Some e) \<Rightarrow> (out, Failed e)
           | (out, None) \<Rightarrow>
               (case handle_client loads cwd root_dir fs s' of
                  (later, ending) \<Rightarrow> (out @ later, ending))))"
  by pat_completeness auto
termination
  by (relation "measure (\<lambda>(loads, cwd, root_dir, fs, s). pending s)")
     (auto dest: read_frame_consumes [OF sym])

declare handle_client.simps [simp del]

section \<open>Client: the registry of downloads in \<open>ClientGUI\<close>\<close>

text \<open>
  \<open>ClientGUI\<close> keeps two dictionaries keyed by the remote path: \<open>downloaders\<close>, to the
  \<open>Downloader\<close> objects, and \<open>progress_widgets\<close>, to the widgets of their progress
  frames.  The objects live on in the heap whatever the dictionaries hold: a reference
  is an index into \<open>objects\<close> (the \<open>Downloader\<close>s ever made) or \<open>frames\<close> (the progress
  frames ever made).  Of a \<open>Downloader\<close> the registry reads and writes \<open>cancelled\<close>; of
  a frame, what its size label shows and whether it was destroyed.
\<close>

record downloader_object =
  file_path :: string
  save_path :: string
  cancelled :: bool

record frame =
  title :: string
  showing :: "(int \<times> int) option"  \<comment> \<open>\<open>(downloaded, total)\<close> of the last update; \<open>None\<close>: \<open>"0 / 0"\<close>\<close>
  destroyed :: bool

record client_gui =
  current_path :: string
  downloaders :: "string \<rightharpoonup> nat"
  progress_widgets :: "string \<rightharpoonup> nat"
  objects :: "downloader_object list"
  frames :: "frame list"

fun replace_slashes :: "string \<Rightarrow> string" where
  \<comment> \<open>\<open>s.replace('//', '/')\<close>: from the left, occurrences that do not overlap\<close>
  "replace_slashes (a # b # r) =
     (if a = CHR ''/'' \<and> b = CHR ''/'' then CHR ''/'' # replace_slashes r
      else a # replace_slashes (b # r))"
| "replace_slashes r = r"

definition create_progress_ui :: "string \<Rightarrow> string \<Rightarrow> client_gui \<Rightarrow> client_gui" where
  "create_progress_ui remote_path label g =
     g\<lparr>frames := frames g @ [\<lparr>title = label, showing = None, destroyed = False\<rparr>],
       progress_widgets := (progress_widgets g)(remote_path \<mapsto> length (frames g))\<rparr>"

definition start_download :: "string option \<Rightarrow> string \<Rightarrow> client_gui \<Rightarrow> client_gui" where
  \<comment> \<open>\<open>selection\<close>: the name of the selected row of the tree, if one is selected;
      \<open>chosen\<close>: what \<open>filedialog.asksaveasfilename\<close> returns, empty when dismissed\<close>
  "start_download selection chosen g =
     (case selection of
        None \<Rightarrow> g
      | Some label \<Rightarrow>
          let remote_path = replace_slashes (current_path g @ label)
          in if chosen = [] then g
             else create_progress_ui remote_path label
                    (g\<lparr>objects := objects g
                          @ [\<lparr>file_path = remote_path, save_path = chosen, cancelled = False\<rparr>],
                        downloaders := (downloaders g)(remote_path \<mapsto> length (objects g))\<rparr>))"

definition update_progress :: "string \<Rightarrow> int \<Rightarrow> int \<Rightarrow> client_gui \<Rightarrow> client_gui" where
  "update_progress remote_path n of_total g =
     (case progress_widgets g remote_path of
        None \<Rightarrow> g
      | Some w \<Rightarrow> g\<lparr>frames := (frames g)[w := (frames g ! w)\<lparr>showing := Some (n, of_total)\<rparr>]\<rparr>)"

definition remove_download :: "string \<Rightarrow> client_gui \<Rightarrow> client_gui" where
  "remove_download remote_path g =
     (let g = (case progress_widgets g remote_path of
                 None \<Rightarrow> g
               | Some w \<Rightarrow>
                   g\<lparr>frames := (frames g)[w := (frames g ! w)\<lparr>destroyed := True\<rparr>],
                     progress_widgets := (progress_widgets g)(remote_path := None)\<rparr>)
      in g\<lparr>downloaders := (downloaders g)(remote_path := None)\<rparr>)"

definition cancel_download :: "string \<Rightarrow> client_gui \<Rightarrow> client_gui" where
  "cancel_download remote_path g =
     remove_download remote_path
       (case downloaders g remote_path of
          None \<Rightarrow> g
        | Some d \<Rightarrow> g\<lparr>objects := (objects g)[d := (objects g ! d)\<lparr>cancelled := True\<rparr>]\<rparr>)"

section \<open>Evaluation\<close>

text \<open>
  The equations that compute each function, for the simplifier to run a function on a
  concrete input.  The loops are unfolded only on demand.
\<close>

lemmas text_defs = newline_def literal_def startswith_def endswith_def

lemmas path_defs =
  os_sep_def split_on_def join_def norm_step_def normpath_def isabs_def abspath_def
  replace_sep_def safe_join_def

lemmas client_defs =
  decode_def cont_def is_space_def is_digit_def strip_def py_int_def CHUNK_SIZE_def
  is_cancelled_def poll_def marker_def write_chunk_def init_def finish_def download_def
  recv_header.simps transfer.simps

lemmas fs_defs = isdir_def isfile_def listdir_def getsize_def open_rb_def

lemmas size_defs =
  round_even_def round53_def digits_def format_1f_def human_readable_size_def
  decimal.simps bitlen.simps

lemmas server_defs =
  subscript_def get_def as_path_def download_file_def list_directory_def command_def
  permission_denied_def get_listing_def marker_def quoted_def request_def loads_of_def
  read_frame.simps handle_client.simps file_chunks.simps

section \<open>Path resolution\<close>

text \<open>
  C1.  The claim: \<open>safe_join\<close> returns \<open>None\<close> whenever the normalised absolute path
  lies outside the root, the test being by path components, so that a sibling of the root
  whose name begins with the root's name is rejected.  The source tests
  \<open>abspath(full_path).startswith(abspath(base))\<close>, a prefix of characters.  With the
  root \<open>/srv/share\<close> the logical path \<open>../share-other/secret.txt\<close> resolves to
  \<open>/srv/share-other/secret.txt\<close>, outside the root, and \<open>safe_join\<close> returns it; a path
  that leaves the root for a directory of another name, \<open>../../etc/passwd\<close>, is refused.
\<close>

theorem safe_join_accepts_sibling_sharing_prefix:
  "safe_join ''/'' ''/srv/share'' ''../share-other/secret.txt''
     = Some ''/srv/share-other/secret.txt''
   \<and> safe_join ''/'' ''/srv/share'' ''../../etc/passwd'' = None"
  by (simp add: text_defs path_defs)

section \<open>The receive loop\<close>

text \<open>
  Whatever the stream and whenever the download is cancelled, the receive loop never
  lowers \<open>downloaded\<close>.
\<close>

lemma write_chunk_downloaded:
  "downloaded d \<le> downloaded (write_chunk chunk (poll d))"
  by (simp add: write_chunk_def poll_def Let_def)

lemma transfer_downloaded_monotone:
  "transfer schedule d s = (r, d', s') \<Longrightarrow> downloaded d \<le> downloaded d'"
proof (induction schedule d s rule: transfer.induct)
  case (1 schedule d s)
  show ?case
  proof (cases "is_cancelled schedule d \<or> total_size d \<le> downloaded d")
    case True
    with "1.prems" show ?thesis
      by (auto simp: transfer.simps [of schedule d s] poll_def)
  next
    case False
    obtain x s1 where x: "recv CHUNK_SIZE s = (x, s1)" by (cases "recv CHUNK_SIZE s")
    show ?thesis
    proof (cases x)
      case (Done chunk)
      show ?thesis
      proof (cases "chunk = []")
        case True
        with False x Done "1.prems" show ?thesis
          by (auto simp: transfer.simps [of schedule d s] poll_def)
      next
        case nonempty: False
        with False x Done "1.prems"
        have "transfer schedule (write_chunk chunk (poll d)) s1 = (r, d', s')"
          by (simp add: transfer.simps [of schedule d s])
        from "1.IH" [OF False x [symmetric] Done nonempty this]
        have "downloaded (write_chunk chunk (poll d)) \<le> downloaded d'" .
        with write_chunk_downloaded [of d chunk] show ?thesis by simp
      qed
    next
      case (Raises e)
      with False x "1.prems" show ?thesis
        by (auto simp: transfer.simps [of schedule d s] poll_def)
    next
      case Blocks
      with False x "1.prems" show ?thesis
        by (auto simp: transfer.simps [of schedule d s] poll_def)
    qed
  qed
qed

section \<open>The download, end to end\<close>

text \<open>
  C2.  The claim: a download that runs to completion leaves a destination file equal to
  the source file, whatever its tail, and the receiver never strips a marker from body
  bytes.  The server holds a file of six bytes, \<open>END\n\<close> followed by \<open>ab\<close>, and answers
  the request with the header, the six bytes and the marker.  When these bytes reach the
  client cut as \<open>SIZE:6\n\<close>, \<open>END\n\<close>, \<open>ab\<close>, \<open>E\<close>, \<open>ND\n\<close>, the receive loop drops the first
  four bytes of the file, counts the marker as content, and reports completion with the
  file \<open>abEND\n\<close>.  When a file that is \<open>END\n\<close> alone arrives send by send, both the
  file and the marker are dropped and the loop waits for ever for four bytes more.
\<close>

theorem download_strips_marker_from_body:
  "download_file ''/'' ''/''
       (\<lambda>p. if p = ''/f'' then Some (File (''END'' @ [newline] @ ''ab'') True) else None)
       (JObject [(''type'', JString ''DOWNLOAD''), (''path'', JString ''/f'')])
     = ([Sent (''SIZE:6'' @ [newline]), Sent (''END'' @ [newline] @ ''ab''),
         Sent (''END'' @ [newline])], None)
   \<and> download None None
       [Segment (''SIZE:6'' @ [newline]), Segment (''END'' @ [newline]), Segment ''ab'',
        Segment ''E'', Segment (''ND'' @ [newline])]
     = \<lparr>shown = Complete, dest = Some (''abEND'' @ [newline]),
        final = \<lparr>total_size = 6, downloaded = 6, polls = 6, written = ''abEND'' @ [newline],
                  progress = [(0, 6), (2, 6), (3, 6), (6, 6), (6, 6)]\<rparr>\<rparr>
   \<and> download None None
       [Segment (''SIZE:4'' @ [newline]), Segment (''END'' @ [newline]),
        Segment (''END'' @ [newline])]
     = \<lparr>shown = Never, dest = Some [],
        final = \<lparr>total_size = 4, downloaded = 0, polls = 3, written = [],
                  progress = [(0, 4), (0, 4)]\<rparr>\<rparr>"
  by (simp add: text_defs path_defs fs_defs size_defs server_defs client_defs)

text \<open>
  C4.  The claim: when the stream ends before \<open>downloaded\<close> reaches \<open>total_size\<close> the
  session fails and reports no success.  The server announces ten bytes, sends three
  and closes.  The empty receive leaves the loop by \<open>break\<close>, and the code after the
  loop, which asks only whether the download was cancelled, sets the progress to
  \<open>(10, 10)\<close> and shows \<open>Complete\<close> over a file of three bytes.
\<close>

theorem stream_end_is_reported_complete:
  "download None None [Segment (''SIZE:10'' @ [newline]), Segment ''abc'', Fin]
     = \<lparr>shown = Complete, dest = Some ''abc'',
        final = \<lparr>total_size = 10, downloaded = 3, polls = 3, written = ''abc'',
                  progress = [(3, 10), (10, 10)]\<rparr>\<rparr>"
  by (simp add: text_defs client_defs)

text \<open>
  C6.  The claim: \<open>downloaded\<close> never exceeds \<open>total_size\<close> and equals it on natural
  completion, however the stream is cut.  The server announces three bytes; they reach
  the client in one receive with the first two bytes of the marker.  The chunk does not
  end with the marker, so all five bytes are written and counted: \<open>downloaded\<close> is
  \<open>5\<close>, the progress reported is \<open>(5, 3)\<close> and then \<open>(3, 3)\<close>, and the file is \<open>abcEN\<close>.
  (That \<open>downloaded\<close> never decreases does hold: \<open>transfer_downloaded_monotone\<close>.)
\<close>

theorem downloaded_exceeds_total_size:
  "download None None
       [Segment (''SIZE:3'' @ [newline]), Segment ''abcEN'', Segment (''D'' @ [newline])]
     = \<lparr>shown = Complete, dest = Some ''abcEN'',
        final = \<lparr>total_size = 3, downloaded = 5, polls = 3, written = ''abcEN'',
                  progress = [(5, 3), (3, 3)]\<rparr>\<rparr>"
  by (simp add: text_defs client_defs)

section \<open>Frames that are not commands\<close>

text \<open>
  C7.  The claim: a frame that is not a valid command, be it invalid JSON or JSON that
  is no command, is answered with an error and the connection stays open for the next
  command.  For invalid JSON the handler does so: it answers \<open>ERROR: Invalid JSON\<close> and
  then serves the listing the next frame asks for.  For the frame \<open>{}\<close>, an object with
  no \<open>type\<close>, \<open>cmd['type']\<close> raises \<open>KeyError\<close>, which only the outer \<open>except\<close> catches:
  nothing is sent, the connection is closed and the next frame is never read.
\<close>

theorem missing_type_closes_connection:
  "handle_client
       (loads_of
          [(request ''LIST'' ''/'',
            Inr (JObject [(''type'', JString ''LIST''), (''path'', JString ''/'')]))])
       ''/'' ''/'' (\<lambda>p. if p = ''/'' then Some (Dir [] True 4096) else None)
       [Segment (''{'' @ [newline]), Segment (request ''LIST'' ''/''), Fin]
     = ([Sent (''ERROR: Invalid JSON'' @ [newline]), Sent_json (Listing [])], Returned)
   \<and> handle_client
       (loads_of
          [(''{}'' @ [newline], Inr (JObject [])),
           (request ''LIST'' ''/'',
            Inr (JObject [(''type'', JString ''LIST''), (''path'', JString ''/'')]))])
       ''/'' ''/'' (\<lambda>p. if p = ''/'' then Some (Dir [] True 4096) else None)
       [Segment (''{}'' @ [newline]), Segment (request ''LIST'' ''/''), Fin]
     = ([], Failed KeyError)"
  by (simp add: text_defs path_defs fs_defs server_defs)

section \<open>Download requests that fail\<close>

text \<open>
  C10.  Whatever makes a \<open>DOWNLOAD\<close> request fail, the path leaving the root
  (\<open>safe_join\<close> returns \<open>None\<close>), nothing being at the path, or the path being a
  directory (\<open>isfile\<close> is false in both cases), the server sends the one header
  \<open>ERROR: File not found or access denied\<close>, raises nothing and goes on to the next
  command: the response does not tell the causes apart.
\<close>

theorem failed_download_same_error:
  assumes "loads data = Inr cmd"
    and "subscript cmd ''type'' = Inr (JString ''DOWNLOAD'')"
    and "as_path (get cmd ''path'' (JString [])) = Inr requested"
    and "safe_join cwd root_dir requested = None
         \<or> (\<exists>full_path. safe_join cwd root_dir requested = Some full_path
                \<and> \<not> isfile fs full_path)"
  shows "command loads cwd root_dir fs data
           = ([Sent (''ERROR: File not found or access denied'' @ [newline])], None)"
  using assms by (auto simp: command_def download_file_def)

theorem failed_download_same_error_witness:
  "command
       (loads_of
          [(request ''DOWNLOAD'' ''../../etc/passwd'',
            Inr (JObject [(''type'', JString ''DOWNLOAD''), (''path'', JString ''../../etc/passwd'')])),
           (request ''DOWNLOAD'' ''missing.txt'',
            Inr (JObject [(''type'', JString ''DOWNLOAD''), (''path'', JString ''missing.txt'')])),
           (request ''DOWNLOAD'' ''docs'',
            Inr (JObject [(''type'', JString ''DOWNLOAD''), (''path'', JString ''docs'')]))])
       ''/'' ''/srv/share''
       (\<lambda>p. if p = ''/srv/share/docs'' then Some (Dir [] True 4096) else None)
       (request ''DOWNLOAD'' ''../../etc/passwd'')
     = ([Sent (''ERROR: File not found or access denied'' @ [newline])], None)
   \<and> command
       (loads_of
          [(request ''DOWNLOAD'' ''../../etc/passwd'',
            Inr (JObject [(''type'', JString ''DOWNLOAD''), (''path'', JString ''../../etc/passwd'')])),
           (request ''DOWNLOAD'' ''missing.txt'',
            Inr (JObject [(''type'', JString ''DOWNLOAD''), (''path'', JString ''missing.txt'')])),
           (request ''DOWNLOAD'' ''docs'',
            Inr (JObject [(''type'', JString ''DOWNLOAD''), (''path'', JString ''docs'')]))])
       ''/'' ''/srv/share''
       (\<lambda>p. if p = ''/srv/share/docs'' then Some (Dir [] True 4096) else None)
       (request ''DOWNLOAD'' ''missing.txt'')
     = ([Sent (''ERROR: File not found or access denied'' @ [newline])], None)
   \<and> command
       (loads_of
          [(request ''DOWNLOAD'' ''../../etc/passwd'',
            Inr (JObject [(''type'', JString ''DOWNLOAD''), (''path'', JString ''../../etc/passwd'')])),
           (request ''DOWNLOAD'' ''missing.txt'',
            Inr (JObject [(''type'', JString ''DOWNLOAD''), (''path'', JString ''missing.txt'')])),
           (request ''DOWNLOAD'' ''docs'',
            Inr (JObject [(''type'', JString ''DOWNLOAD''), (''path'', JString ''docs'')]))])
       ''/'' ''/srv/share''
       (\<lambda>p. if p = ''/srv/share/docs'' then Some (Dir [] True 4096) else None)
       (request ''DOWNLOAD'' ''docs'')
     = ([Sent (''ERROR: File not found or access denied'' @ [newline])], None)"
proof -
  let ?loads = "loads_of
          [(request ''DOWNLOAD'' ''../../etc/passwd'',
            Inr (JObject [(''type'', JString ''DOWNLOAD''), (''path'', JString ''../../etc/passwd'')])),
           (request ''DOWNLOAD'' ''missing.txt'',
            Inr (JObject [(''type'', JString ''DOWNLOAD''), (''path'', JString ''missing.txt'')])),
           (request ''DOWNLOAD'' ''docs'',
            Inr (JObject [(''type'', JString ''DOWNLOAD''), (''path'', JString ''docs'')]))]"
  let ?fs = "(\<lambda>p. if p = ''/srv/share/docs'' then Some (Dir [] True 4096) else None)"
  have escape: "safe_join ''/'' ''/srv/share'' ''../../etc/passwd'' = None"
    by (simp add: text_defs path_defs)
  have missing: "safe_join ''/'' ''/srv/share'' ''missing.txt'' = Some ''/srv/share/missing.txt''"
    by (simp add: text_defs path_defs)
  have directory: "safe_join ''/'' ''/srv/share'' ''docs'' = Some ''/srv/share/docs''"
    by (simp add: text_defs path_defs)
  have decoded:
    "?loads (request ''DOWNLOAD'' ''../../etc/passwd'') = Inr (JObject [(''type'', JString ''DOWNLOAD''), (''path'', JString ''../../etc/passwd'')])"
    "?loads (request ''DOWNLOAD'' ''missing.txt'') = Inr (JObject [(''type'', JString ''DOWNLOAD''), (''path'', JString ''missing.txt'')])"
    "?loads (request ''DOWNLOAD'' ''docs'') = Inr (JObject [(''type'', JString ''DOWNLOAD''), (''path'', JString ''docs'')])"
    by (simp_all add: loads_of_def request_def quoted_def)
  show ?thesis
    using failed_download_same_error
        [where loads = ?loads and fs = ?fs and cwd = "''/''" and root_dir = "''/srv/share''",
         OF decoded(1)]
      failed_download_same_error
        [where loads = ?loads and fs = ?fs and cwd = "''/''" and root_dir = "''/srv/share''",
         OF decoded(2)]
      failed_download_same_error
        [where loads = ?loads and fs = ?fs and cwd = "''/''" and root_dir = "''/srv/share''",
         OF decoded(3)]
      escape missing directory
    by (simp add: subscript_def get_def as_path_def isfile_def)
qed

section \<open>The body of a download response\<close>

lemma concat_file_chunks: "concat (file_chunks content) = content"
proof (induction content rule: file_chunks.induct)
  case (1 content)
  show ?case
  proof (cases "content = []")
    case True
    then show ?thesis by (simp add: file_chunks.simps)
  next
    case False
    with 1 show ?thesis by (subst file_chunks.simps) simp
  qed
qed

lemma file_chunks_bounded:
  "chunk \<in> set (file_chunks content) \<Longrightarrow> chunk \<noteq> [] \<and> length chunk \<le> 65536"
proof (induction content rule: file_chunks.induct)
  case (1 content)
  show ?case
  proof (cases "content = []")
    case True
    with "1.prems" show ?thesis by (simp add: file_chunks.simps)
  next
    case False
    with "1.prems"
    have "chunk = take 65536 content \<or> chunk \<in> set (file_chunks (drop 65536 content))"
      by (subst (asm) file_chunks.simps) simp
    with False "1.IH" show ?thesis by auto
  qed
qed

lemma handle_client_continues:
  assumes "read_frame [] s = (Done (Some data), s')"
    and "command loads cwd root_dir fs data = (out, None)"
  shows "handle_client loads cwd root_dir fs s
           = (out @ fst (handle_client loads cwd root_dir fs s'),
              snd (handle_client loads cwd root_dir fs s'))"
  by (subst handle_client.simps) (simp add: assms split: prod.split)

text \<open>
  C3, as the claim states it: after the header \<open>SIZE:n\<close> the server transmits exactly
  \<open>n\<close> bytes and nothing else before it reads the next command.  For a file of the three
  bytes \<open>abc\<close> the server sends the header \<open>SIZE:3\<close>, then \<open>abc\<close>, then the marker
  \<open>END\n\<close>: seven bytes follow the header, not three.
\<close>

theorem download_sends_marker_after_content:
  "download_file ''/'' ''/'' (\<lambda>p. if p = ''/f'' then Some (File ''abc'' True) else None)
       (JObject [(''type'', JString ''DOWNLOAD''), (''path'', JString ''/f'')])
     = (Sent (''SIZE:3'' @ [newline]) # map Sent [''abc'', ''END'' @ [newline]], None)
   \<and> length (concat [''abc'', ''END'' @ [newline]]) = 7"
  by (simp add: text_defs path_defs fs_defs size_defs server_defs)

text \<open>
  C3, amended.  For every \<open>DOWNLOAD\<close> command whose path resolves inside the root to a
  regular file that can be opened, the server sends the header \<open>SIZE:n\<close> with \<open>n\<close> the
  length of the file, then the content of the file in chunks of at most 65536 bytes
  that make up exactly those \<open>n\<close> bytes, then the four bytes of the marker \<open>END\n\<close>, and nothing else; no
  exception is raised, and the handler goes on to read the next frame from what is left
  on the connection.
\<close>

theorem download_sends_content_then_marker:
  assumes "read_frame [] s = (Done (Some data), s')"
    and "loads data = Inr cmd"
    and "subscript cmd ''type'' = Inr (JString ''DOWNLOAD'')"
    and "as_path (get cmd ''path'' (JString [])) = Inr requested"
    and "safe_join cwd root_dir requested = Some full_path"
    and "fs full_path = Some (File content True)"
  shows "command loads cwd root_dir fs data
           = (Sent (''SIZE:'' @ decimal (length content) @ [newline])
                # map Sent (file_chunks content) @ [Sent marker], None)
         \<and> concat (file_chunks content) = content
         \<and> (\<forall>chunk \<in> set (file_chunks content). chunk \<noteq> [] \<and> length chunk \<le> 65536)
         \<and> length marker = 4
         \<and> handle_client loads cwd root_dir fs s
           = ((Sent (''SIZE:'' @ decimal (length content) @ [newline])
                # map Sent (file_chunks content) @ [Sent marker])
                @ fst (handle_client loads cwd root_dir fs s'),
              snd (handle_client loads cwd root_dir fs s'))"
proof -
  have sent: "command loads cwd root_dir fs data
           = (Sent (''SIZE:'' @ decimal (length content) @ [newline])
                # map Sent (file_chunks content) @ [Sent marker], None)"
    using assms(2-6)
    by (simp add: command_def download_file_def isfile_def getsize_def open_rb_def)
  from handle_client_continues [OF assms(1) sent] sent file_chunks_bounded [of _ content]
  show ?thesis by (simp add: concat_file_chunks marker_def)
qed

theorem download_sends_content_then_marker_witness:
  "command
       (loads_of
          [(request ''DOWNLOAD'' ''/f'',
            Inr (JObject [(''type'', JString ''DOWNLOAD''), (''path'', JString ''/f'')]))])
       ''/'' ''/'' (\<lambda>p. if p = ''/f'' then Some (File ''abc'' True) else None)
       (request ''DOWNLOAD'' ''/f'')
     = ([Sent (''SIZE:3'' @ [newline]), Sent ''abc'', Sent (''END'' @ [newline])], None)
   \<and> handle_client
       (loads_of
          [(request ''DOWNLOAD'' ''/f'',
            Inr (JObject [(''type'', JString ''DOWNLOAD''), (''path'', JString ''/f'')]))])
       ''/'' ''/'' (\<lambda>p. if p = ''/f'' then Some (File ''abc'' True) else None)
       [Segment (request ''DOWNLOAD'' ''/f''), Fin]
     = ([Sent (''SIZE:3'' @ [newline]), Sent ''abc'', Sent (''END'' @ [newline])], Returned)"
proof -
  let ?cmd = "JObject [(''type'', JString ''DOWNLOAD''), (''path'', JString ''/f'')]"
  let ?loads = "loads_of [(request ''DOWNLOAD'' ''/f'', Inr ?cmd)]"
  let ?fs = "\<lambda>p. if p = ''/f'' then Some (File ''abc'' True) else None"
  have frame: "read_frame [] [Segment (request ''DOWNLOAD'' ''/f''), Fin]
      = (Done (Some (request ''DOWNLOAD'' ''/f'')), [Fin])"
    by (simp add: text_defs request_def quoted_def read_frame.simps)
  have decoded: "?loads (request ''DOWNLOAD'' ''/f'') = Inr ?cmd"
    by (simp add: loads_of_def)
  have kind: "subscript ?cmd ''type'' = Inr (JString ''DOWNLOAD'')"
    by (simp add: subscript_def)
  have arg: "as_path (get ?cmd ''path'' (JString [])) = Inr ''/f''"
    by (simp add: get_def as_path_def)
  have inside: "safe_join ''/'' ''/'' ''/f'' = Some ''/f''"
    by (simp add: text_defs path_defs)
  have node: "?fs ''/f'' = Some (File ''abc'' True)"
    by simp
  have rest: "handle_client ?loads ''/'' ''/'' ?fs [Fin] = ([], Returned)"
    by (simp add: text_defs handle_client.simps read_frame.simps)
  have chunks: "file_chunks ''abc'' = [''abc'']"
    by (simp add: file_chunks.simps)
  from download_sends_content_then_marker
         [where fs = ?fs and loads = ?loads, OF frame decoded kind arg inside node]
  show ?thesis
    by (simp add: rest chunks marker_def size_defs)
qed

section \<open>Cancelled and failed downloads\<close>

lemma transfer_stops_when_cancelled:
  "is_cancelled schedule d \<Longrightarrow> transfer schedule d s = (Done Condition_false, poll d, s)"
  by (subst transfer.simps) simp

text \<open>
  C5, as the claim states it: a download that ends cancelled or failed leaves no partial
  destination file.  The server announces three bytes, sends one, and the connection
  breaks: \<open>recv\<close> raises, \<open>except Exception\<close> shows \<open>Download Failed\<close>, and the file with
  the one byte stays on disk; nothing on that path removes it.  When the server closes
  the stream after three of ten bytes, the partial file stays as well.
\<close>

theorem failed_download_keeps_partial_file:
  "download None None [Segment (''SIZE:3'' @ [newline]), Segment ''a'', Rst]
     = \<lparr>shown = Download_failed OSError, dest = Some ''a'',
        final = \<lparr>total_size = 3, downloaded = 1, polls = 2, written = ''a'',
                  progress = [(1, 3)]\<rparr>\<rparr>
   \<and> dest (download None None [Segment (''SIZE:10'' @ [newline]), Segment ''abc'', Fin])
     = Some ''abc''"
  by (simp add: text_defs client_defs)

text \<open>
  C5, amended.  A download ends cancelled when the receive loop has been left without
  an exception and \<open>self.cancelled\<close> is found set by then, that is, when \<open>cancel\<close> came
  before the last read of the flag (\<open>k < polls\<close>).  Every such download removes the
  destination file: none remains on disk, whatever had been written to it.  (The loop
  itself receives nothing more once it has seen the flag:
  \<open>transfer_stops_when_cancelled\<close>.)
\<close>

theorem cancelled_download_leaves_no_file:
  assumes "schedule = Some k"
    and "k < polls (final (download schedule existing s))"
    and "shown (download schedule existing s) = Complete
         \<or> shown (download schedule existing s) = Removed"
  shows "shown (download schedule existing s) = Removed
         \<and> dest (download schedule existing s) = None"
  using assms
  by (auto simp: download_def finish_def is_cancelled_def poll_def init_def
           split: prod.splits io.splits option.splits if_splits)

theorem cancelled_download_leaves_no_file_witness:
  "shown (download (Some 1) (Some ''old'')
            [Segment (''SIZE:3'' @ [newline]), Segment ''a'', Segment (''bcEND'' @ [newline])])
     = Removed
   \<and> dest (download (Some 1) (Some ''old'')
            [Segment (''SIZE:3'' @ [newline]), Segment ''a'', Segment (''bcEND'' @ [newline])])
     = None"
proof -
  let ?s = "[Segment (''SIZE:3'' @ [newline]), Segment ''a'', Segment (''bcEND'' @ [newline])]"
  have run: "download (Some 1) (Some ''old'') ?s
      = \<lparr>shown = Removed, dest = None,
         final = \<lparr>total_size = 3, downloaded = 1, polls = 3, written = ''a'',
                   progress = [(1, 3)]\<rparr>\<rparr>"
    by (simp add: text_defs client_defs)
  have seen: "1 < polls (final (download (Some 1) (Some ''old'') ?s))"
    unfolding run by simp
  have ended: "shown (download (Some 1) (Some ''old'') ?s) = Complete
      \<or> shown (download (Some 1) (Some ''old'') ?s) = Removed"
    unfolding run by simp
  show ?thesis
    by (rule cancelled_download_leaves_no_file [OF refl seen ended])
qed

section \<open>The registry of downloads\<close>

lemmas gui_defs =
  create_progress_ui_def start_download_def update_progress_def remove_download_def
  cancel_download_def

text \<open>
  C9.  The dictionaries \<open>downloaders\<close> and \<open>progress_widgets\<close> hold one entry for a
  remote path.  When a download is started for a path \<open>p\<close> that has an active session
  (\<open>old\<close>, with the frame \<open>old_frame\<close>), both entries are overwritten with a new
  \<open>Downloader\<close> and a new frame, different from the earlier ones.  The earlier
  \<open>Downloader\<close> and its frame live on unchanged, but the registry no longer reaches
  them: \<open>cancel_download p\<close> sets \<open>cancelled\<close> of the new \<open>Downloader\<close> and leaves the
  earlier one as it is, it destroys the new frame and not the earlier one, and
  \<open>update_progress p\<close>, whoever calls it, writes into the new frame and leaves the
  earlier frame showing what it showed.
\<close>

theorem start_download_overwrites_registration:
  assumes "downloaders g p = Some old"
    and "progress_widgets g p = Some old_frame"
    and "old < length (objects g)"
    and "old_frame < length (frames g)"
    and "replace_slashes (current_path g @ label) = p"
    and "chosen \<noteq> []"
  shows "downloaders (start_download (Some label) chosen g) p = Some (length (objects g))
    \<and> progress_widgets (start_download (Some label) chosen g) p = Some (length (frames g))
    \<and> length (objects g) \<noteq> old \<and> length (frames g) \<noteq> old_frame
    \<and> objects (start_download (Some label) chosen g) ! old = objects g ! old
    \<and> frames (start_download (Some label) chosen g) ! old_frame = frames g ! old_frame
    \<and> objects (cancel_download p (start_download (Some label) chosen g)) ! old
        = objects g ! old
    \<and> cancelled (objects (cancel_download p (start_download (Some label) chosen g))
                   ! length (objects g))
    \<and> frames (cancel_download p (start_download (Some label) chosen g)) ! old_frame
        = frames g ! old_frame
    \<and> frames (update_progress p n of_total (start_download (Some label) chosen g)) ! old_frame
        = frames g ! old_frame
    \<and> showing (frames (update_progress p n of_total (start_download (Some label) chosen g))
                  ! length (frames g))
        = Some (n, of_total)"
  using assms by (simp add: gui_defs Let_def nth_append)

theorem start_download_overwrites_registration_witness:
  "downloaders
     (start_download (Some ''a.bin'') ''/tmp/copy''
        \<lparr>current_path = ''/'', downloaders = [''/a.bin'' \<mapsto> 0],
          progress_widgets = [''/a.bin'' \<mapsto> 0],
          objects = [\<lparr>file_path = ''/a.bin'', save_path = ''/tmp/a.bin'', cancelled = False\<rparr>],
          frames = [\<lparr>title = ''a.bin'', showing = Some (5, 10), destroyed = False\<rparr>]\<rparr>)
     ''/a.bin'' = Some 1
   \<and> objects
       (cancel_download ''/a.bin''
          (start_download (Some ''a.bin'') ''/tmp/copy''
             \<lparr>current_path = ''/'', downloaders = [''/a.bin'' \<mapsto> 0],
               progress_widgets = [''/a.bin'' \<mapsto> 0],
               objects = [\<lparr>file_path = ''/a.bin'', save_path = ''/tmp/a.bin'', cancelled = False\<rparr>],
               frames = [\<lparr>title = ''a.bin'', showing = Some (5, 10), destroyed = False\<rparr>]\<rparr>))
     = [\<lparr>file_path = ''/a.bin'', save_path = ''/tmp/a.bin'', cancelled = False\<rparr>,
        \<lparr>file_path = ''/a.bin'', save_path = ''/tmp/copy'', cancelled = True\<rparr>]
   \<and> frames
       (update_progress ''/a.bin'' 7 10
          (start_download (Some ''a.bin'') ''/tmp/copy''
             \<lparr>current_path = ''/'', downloaders = [''/a.bin'' \<mapsto> 0],
               progress_widgets = [''/a.bin'' \<mapsto> 0],
               objects = [\<lparr>file_path = ''/a.bin'', save_path = ''/tmp/a.bin'', cancelled = False\<rparr>],
               frames = [\<lparr>title = ''a.bin'', showing = Some (5, 10), destroyed = False\<rparr>]\<rparr>))
     = [\<lparr>title = ''a.bin'', showing = Some (5, 10), destroyed = False\<rparr>,
        \<lparr>title = ''a.bin'', showing = Some (7, 10), destroyed = False\<rparr>]"
proof -
  let ?g = "\<lparr>current_path = ''/'', downloaders = [''/a.bin'' \<mapsto> 0::nat],
              progress_widgets = [''/a.bin'' \<mapsto> 0::nat],
              objects = [\<lparr>file_path = ''/a.bin'', save_path = ''/tmp/a.bin'', cancelled = False\<rparr>],
              frames = [\<lparr>title = ''a.bin'', showing = Some (5, 10), destroyed = False\<rparr>]\<rparr>"
  have registered: "downloaders ?g ''/a.bin'' = Some 0" "progress_widgets ?g ''/a.bin'' = Some 0"
    by simp_all
  have alive: "0 < length (objects ?g)" "0 < length (frames ?g)"
    by simp_all
  have path: "replace_slashes (current_path ?g @ ''a.bin'') = ''/a.bin''"
    by simp
  have chosen: "''/tmp/copy'' \<noteq> []"
    by simp
  from start_download_overwrites_registration
         [OF registered alive path chosen, of 7 10]
  show ?thesis
    by (simp add: gui_defs Let_def)
qed

section \<open>Directory listings\<close>

lemma entries_order:
  "entries fs full_path names = Inr items \<Longrightarrow>
     map on_disk items = names
     \<and> map name items = map (\<lambda>n. if isdir fs (join full_path n) then n @ ''/'' else n) names
     \<and> map is_dir items = map (\<lambda>n. isdir fs (join full_path n)) names"
proof (induction names arbitrary: items)
  case Nil
  then show ?case by simp
next
  case (Cons n names)
  then show ?case
    by (auto simp: on_disk_def split: if_splits sum.splits)
qed

lemma entries_sizes:
  "entries fs full_path names = Inr items \<Longrightarrow> i \<in> set items \<Longrightarrow>
     (if is_dir i then size_str i = []
      else \<exists>content ok. fs (join full_path (name i)) = Some (File content ok)
             \<and> size_str i = human_readable_size (length content))"
proof (induction names arbitrary: items)
  case Nil
  then show ?case by simp
next
  case (Cons n names)
  show ?case
  proof (cases "isdir fs (join full_path n)")
    case True
    with Cons.prems obtain rest where rest: "entries fs full_path names = Inr rest"
      and items: "items = \<lparr>name = n @ ''/'', size_str = [], is_dir = True\<rparr> # rest"
      by (auto split: sum.splits)
    with Cons.prems(2) Cons.IH [OF rest] show ?thesis by auto
  next
    case False
    with Cons.prems obtain sz rest where sz: "getsize fs (join full_path n) = Inr sz"
      and rest: "entries fs full_path names = Inr rest"
      and items: "items = \<lparr>name = n, size_str = human_readable_size sz, is_dir = False\<rparr> # rest"
      by (auto split: sum.splits)
    from False sz obtain content ok where "fs (join full_path n) = Some (File content ok)"
      and "sz = length content"
      by (auto simp: getsize_def isdir_def split: option.splits node.splits)
    with items Cons.prems(2) Cons.IH [OF rest] show ?thesis by auto
  qed
qed

text \<open>
  C8, as the claim states it: the entries of a listing are sorted by the name returned,
  with the \<open>/\<close> appended to directories, and the size of a file entry equals its
  length in bytes.  A directory \<open>/pub\<close> holds the directory \<open>docs\<close> and the file
  \<open>docs.txt\<close> of ten bytes.  \<open>get_listing\<close> sorts the names as they are on disk, where
  \<open>docs\<close> comes before \<open>docs.txt\<close>, and appends \<open>/\<close> afterwards: it returns \<open>docs/\<close>
  before \<open>docs.txt\<close>, which is not sorted, since \<open>/\<close> comes after \<open>.\<close>.  The size
  returned for the file is the text \<open>10.0 B\<close>.
\<close>

theorem listing_not_sorted_by_returned_name:
  "get_listing ''/'' ''/''
       (\<lambda>p. if p = ''/pub'' then Some (Dir [''docs.txt'', ''docs''] True 4096)
             else if p = ''/pub/docs'' then Some (Dir [] True 4096)
             else if p = ''/pub/docs.txt'' then Some (File ''0123456789'' True)
             else None)
       ''/pub/''
     = Inr (Listing
          [\<lparr>name = ''docs/'', size_str = [], is_dir = True\<rparr>,
           \<lparr>name = ''docs.txt'', size_str = ''10.0 B'', is_dir = False\<rparr>])
   \<and> \<not> sorted [''docs/'', ''docs.txt'']"
  by (simp add: text_defs path_defs fs_defs size_defs server_defs)

text \<open>
  C8, amended.  For every listing the server produces, the entries are in the sorted
  order of their names on disk (the names \<open>os.listdir\<close> returned, before \<open>/\<close> is
  appended to the names of directories); the name returned is the name on disk, with
  \<open>/\<close> appended when the entry is a directory; every directory entry has the empty
  size; and the size of every file entry is \<open>human_readable_size\<close> of the length in
  bytes of the file at listing time.
\<close>

theorem listing_sorted_by_name_on_disk:
  assumes "get_listing cwd root_dir fs path = Inr (Listing items)"
  shows "\<exists>full_path names.
           safe_join cwd root_dir path = Some full_path
           \<and> listdir fs full_path = Inr names
           \<and> map on_disk items = sort names
           \<and> sorted (map on_disk items)
           \<and> map name items
               = map (\<lambda>n. if isdir fs (join full_path n) then n @ ''/'' else n) (sort names)
           \<and> (\<forall>i \<in> set items.
                 if is_dir i then size_str i = []
                 else \<exists>content ok. fs (join full_path (name i)) = Some (File content ok)
                        \<and> size_str i = human_readable_size (length content))"
proof -
  from assms obtain full_path where inside: "safe_join cwd root_dir path = Some full_path"
    by (auto simp: get_listing_def split: option.splits)
  with assms obtain names where names: "listdir fs full_path = Inr names"
    and items: "entries fs full_path (sort names) = Inr items"
    by (auto simp: get_listing_def permission_denied_def split: if_splits sum.splits)
  from entries_order [OF items]
  have order: "map on_disk items = sort names"
    "map name items
       = map (\<lambda>n. if isdir fs (join full_path n) then n @ ''/'' else n) (sort names)"
    by simp_all
  have sizes: "\<forall>i \<in> set items.
      if is_dir i then size_str i = []
      else \<exists>content ok. fs (join full_path (name i)) = Some (File content ok)
             \<and> size_str i = human_readable_size (length content)"
    using entries_sizes [OF items] by blast
  have "sorted (map on_disk items)"
    by (simp add: order(1))
  with inside names order sizes show ?thesis
    by blast
qed

theorem listing_sorted_by_name_on_disk_witness:
  "\<exists>full_path names.
      safe_join ''/'' ''/'' ''/pub/'' = Some full_path
      \<and> listdir
            (\<lambda>p. if p = ''/pub'' then Some (Dir [''docs.txt'', ''docs''] True 4096)
             else if p = ''/pub/docs'' then Some (Dir [] True 4096)
             else if p = ''/pub/docs.txt'' then Some (File ''0123456789'' True)
             else None)
            full_path = Inr names
      \<and> map on_disk
            [\<lparr>name = ''docs/'', size_str = [], is_dir = True\<rparr>,
           \<lparr>name = ''docs.txt'', size_str = ''10.0 B'', is_dir = False\<rparr>]
          = sort names
      \<and> sorted (map on_disk
            [\<lparr>name = ''docs/'', size_str = [], is_dir = True\<rparr>,
           \<lparr>name = ''docs.txt'', size_str = ''10.0 B'', is_dir = False\<rparr>])
      \<and> map name
            [\<lparr>name = ''docs/'', size_str = [], is_dir = True\<rparr>,
           \<lparr>name = ''docs.txt'', size_str = ''10.0 B'', is_dir = False\<rparr>]
          = map (\<lambda>n. if isdir
                         (\<lambda>p. if p = ''/pub'' then Some (Dir [''docs.txt'', ''docs''] True 4096)
             else if p = ''/pub/docs'' then Some (Dir [] True 4096)
             else if p = ''/pub/docs.txt'' then Some (File ''0123456789'' True)
             else None)
                         (join full_path n)
                     then n @ ''/'' else n)
              (sort names)
      \<and> (\<forall>i \<in> set [\<lparr>name = ''docs/'', size_str = [], is_dir = True\<rparr>,
           \<lparr>name = ''docs.txt'', size_str = ''10.0 B'', is_dir = False\<rparr>].
            if is_dir i then size_str i = []
            else \<exists>content ok.
                   (\<lambda>p. if p = ''/pub'' then Some (Dir [''docs.txt'', ''docs''] True 4096)
             else if p = ''/pub/docs'' then Some (Dir [] True 4096)
             else if p = ''/pub/docs.txt'' then Some (File ''0123456789'' True)
             else None)
                     (join full_path (name i)) = Some (File content ok)
                   \<and> size_str i = human_readable_size (length content))"
proof -
  have run: "get_listing ''/'' ''/''
       (\<lambda>p. if p = ''/pub'' then Some (Dir [''docs.txt'', ''docs''] True 4096)
             else if p = ''/pub/docs'' then Some (Dir [] True 4096)
             else if p = ''/pub/docs.txt'' then Some (File ''0123456789'' True)
             else None)
       ''/pub/''
     = Inr (Listing
          [\<lparr>name = ''docs/'', size_str = [], is_dir = True\<rparr>,
           \<lparr>name = ''docs.txt'', size_str = ''10.0 B'', is_dir = False\<rparr>])"
    by (simp add: text_defs path_defs fs_defs size_defs server_defs)
  show ?thesis
    by (rule listing_sorted_by_name_on_disk [OF run])
qed

end
